theory Spec2Isabelle
  imports Main "HOL-Library.Char_ord" "HOL-Library.List_Lexorder"
begin

section \<open>JavaScript values used by the server\<close>

text \<open>
  A JavaScript number as far as the server needs it: an integer or \<open>NaN\<close>.
  Strict equality \<open>===\<close> never holds for \<open>NaN\<close>, so a comparison of a
  database integer \<open>n\<close> with a converted value \<open>v\<close> is written \<open>v = Num n\<close>.
\<close>

datatype jsnum = NaN | Num int

definition is_digit :: "char \<Rightarrow> bool" where
  "is_digit c = (CHR ''0'' \<le> c \<and> c \<le> CHR ''9'')"

definition digit_val :: "char \<Rightarrow> int" where
  "digit_val c = int (of_char c) - 48"

definition decimal :: "string \<Rightarrow> int" where
  "decimal ds = foldl (\<lambda>a c. 10 * a + digit_val c) 0 ds"

text \<open>
  \<open>Number(s)\<close> on the strings the server converts: route parameters and
  \<open>String(cms_user_dep_id)\<close>. The empty string is 0, a string of decimal digits is
  its value, and every other string is taken to \<open>NaN\<close> (as \<open>'null'\<close>, \<open>'IT'\<close> are);
  signs, blanks, fractions, exponents and radix prefixes are not covered by this model.
\<close>

definition Number_js :: "string \<Rightarrow> jsnum" where
  "Number_js s =
     (if s = [] then Num 0
      else if list_all is_digit s then Num (decimal s)
      else NaN)"

text \<open>
  \<open>parseInt(s, 10)\<close>: an optional sign and the longest prefix of decimal digits;
  \<open>NaN\<close> when there is no digit. Leading blanks are not covered by this model.
\<close>

definition parseInt_js :: "string \<Rightarrow> jsnum" where
  "parseInt_js s =
     (let neg = (s \<noteq> [] \<and> hd s = CHR ''-'');
          body = (if s \<noteq> [] \<and> (hd s = CHR ''-'' \<or> hd s = CHR ''+'') then tl s else s);
          ds = takeWhile is_digit body
      in if ds = [] then NaN
         else Num (if neg then - decimal ds else decimal ds))"

text \<open>Truthiness of a number (\<open>NaN\<close> and 0 are falsy) and of a nullable string.\<close>

fun truthy_num :: "jsnum \<Rightarrow> bool" where
  "truthy_num NaN = False"
| "truthy_num (Num n) = (n \<noteq> 0)"

fun truthy_str :: "string option \<Rightarrow> bool" where
  "truthy_str None = False"
| "truthy_str (Some s) = (s \<noteq> [])"

definition toLowerCase_char :: "char \<Rightarrow> char" where
  "toLowerCase_char c =
     (if CHR ''A'' \<le> c \<and> c \<le> CHR ''Z'' then char_of (of_char c + (32::nat)) else c)"

definition toLowerCase :: "string \<Rightarrow> string" where
  "toLowerCase s = map toLowerCase_char s"

text \<open>\<open>String.prototype.trim\<close> on byte strings: tab, LF, VT, FF, CR, space and NBSP.\<close>

definition is_space :: "char \<Rightarrow> bool" where
  "is_space c = (of_char c \<in> {9, 10, 11, 12, 13, 32, 160 :: nat})"

definition trim :: "string \<Rightarrow> string" where
  "trim s = rev (dropWhile is_space (rev (dropWhile is_space s)))"

section \<open>Data model\<close>

text \<open>
  The session user (\<open>HRMSUser\<close> in hrmsAuth.ts); \<open>department\<close> is a string.
  The fields \<open>id\<close> and \<open>password_hash\<close>, which no handler below reads, are left out.
\<close>

datatype role = employee | admin | super_admin

record HRMSUser =
  employee_id :: string
  first_name :: string
  last_name :: string
  email :: string
  department :: string
  role :: role

text \<open>A row of table \<open>cms_complaint_details\<close>, by column.\<close>

record complaint =
  cms_com_id :: int
  cms_com_ticket_no :: string
  cms_com_comp_id :: int
  cms_sys_dep_id :: int
  cms_sys_id :: int
  cms_com_description :: string
  cms_com_user_priority :: string
  cms_com_status :: string
  cms_user_id :: string
  cms_sys_l1_id :: "string option"
  cms_created_at :: nat

text \<open>
  The \<open>Ticket\<close> object the storage service returns (the columns joined from other
  tables, the messages and the attachments are left out). Field \<open>id\<close> is written \<open>id'\<close>.
\<close>

record Ticket =
  id' :: int
  ticket_number :: string
  company_id :: int
  department_id :: int
  target_system_id :: int
  subject :: string
  description :: string
  priority :: string
  status :: string
  created_by :: string
  assigned_to :: "string option"
  created_at :: nat
  updated_at :: nat

text \<open>A row of \<open>cms_resolve\<close> (ticket chat) and the \<open>TicketMessage\<close> object.\<close>

record resolve =
  cms_resolve_id :: int
  cms_resolove_ticket_no :: string
  cms_resolve_desc :: string
  cms_resolve_user_id :: string

record TicketMessage =
  message_id :: int
  ticket_id :: int
  sender_id :: string
  message :: string

text \<open>Rows of \<open>cms_user_conversations\<close> and \<open>cms_user_conversation_messages\<close>.\<close>

record conversation =
  conv_id :: int
  member_a_id :: string
  member_b_id :: string
  dept_id :: "int option"

record conversation_message =
  conv_msg_id :: int
  conversation_id :: int
  conv_sender_id :: string
  conv_message :: string

text \<open>
  The helpdesk database: its tables as lists of rows in insertion order, and the
  AUTO_INCREMENT counter of each table the server inserts into.
\<close>

record store =
  cms_complaint_details :: "complaint list"
  cms_resolve :: "resolve list"
  cms_resolve_next :: int
  cms_user_conversations :: "conversation list"
  cms_user_conversations_next :: int
  cms_user_conversation_messages :: "conversation_message list"
  cms_user_conversation_messages_next :: int

section \<open>Storage service (mysqlStorage.ts)\<close>

definition mapStatusToStandard :: "string \<Rightarrow> string" where
  "mapStatusToStandard st =
     (if st = [] then ''open''
      else let s = toLowerCase st in
        if s \<in> set [''open'', ''opened'', ''new''] then ''open''
        else if s \<in> set [''in_progress'', ''in-progress'', ''progress'', ''assigned''] then ''in_progress''
        else if s \<in> set [''resolved'', ''done'', ''fixed''] then ''resolved''
        else if s \<in> set [''closed'', ''complete'', ''completed''] then ''closed''
        else s)"

text \<open>The row-to-object mapping shared by \<open>getTickets\<close> and \<open>getTicketById\<close>.\<close>

definition row_to_ticket :: "complaint \<Rightarrow> Ticket" where
  "row_to_ticket r =
     \<lparr> id' = cms_com_id r,
       ticket_number = cms_com_ticket_no r,
       company_id = cms_com_comp_id r,
       department_id = cms_sys_dep_id r,
       target_system_id = cms_sys_id r,
       subject = takeWhile (\<lambda>c. c \<noteq> CHR 0x0A) (cms_com_description r),
       description = cms_com_description r,
       priority = cms_com_user_priority r,
       status = mapStatusToStandard (cms_com_status r),
       created_by = cms_user_id r,
       assigned_to = cms_sys_l1_id r,
       created_at = cms_created_at r,
       updated_at = cms_created_at r \<rparr>"

text \<open>\<open>getTicketById\<close>: the first row \<open>WHERE cms_com_id = ?\<close>; \<open>NaN\<close> matches no row.\<close>

fun getTicketById :: "store \<Rightarrow> jsnum \<Rightarrow> Ticket option" where
  "getTicketById st NaN = None"
| "getTicketById st (Num i) =
     map_option row_to_ticket (find (\<lambda>r. cms_com_id r = i) (cms_complaint_details st))"

text \<open>\<open>UPDATE cms_complaint_details SET cms_com_status = ? WHERE cms_com_id = ?\<close>.\<close>

fun updateTicketStatus :: "store \<Rightarrow> jsnum \<Rightarrow> string \<Rightarrow> Ticket option \<times> store" where
  "updateTicketStatus st NaN s = (None, st)"
| "updateTicketStatus st (Num i) s =
     (let st' = st\<lparr>cms_complaint_details :=
                 map (\<lambda>r. if cms_com_id r = i then r\<lparr>cms_com_status := s\<rparr> else r)
                     (cms_complaint_details st)\<rparr>
      in (getTicketById st' (Num i), st'))"

text \<open>
  \<open>assignTicket\<close>: one UPDATE that sets \<open>cms_sys_l1_id\<close> and resets the status to
  \<open>in_progress\<close> when it was \<open>resolved\<close> or \<open>closed\<close>, then reads the ticket back.
\<close>

definition assign_row :: "string \<Rightarrow> complaint \<Rightarrow> complaint" where
  "assign_row assignedToId r =
     r\<lparr>cms_sys_l1_id := Some assignedToId,
       cms_com_status :=
         (if cms_com_status r \<in> set [''resolved'', ''closed''] then ''in_progress''
          else cms_com_status r)\<rparr>"

fun assignTicket :: "store \<Rightarrow> jsnum \<Rightarrow> string \<Rightarrow> Ticket option \<times> store" where
  "assignTicket st NaN assignedToId = (None, st)"
| "assignTicket st (Num i) assignedToId =
     (let st' = st\<lparr>cms_complaint_details :=
                 map (\<lambda>r. if cms_com_id r = i then assign_row assignedToId r else r)
                     (cms_complaint_details st)\<rparr>
      in (getTicketById st' (Num i), st'))"

text \<open>
  SQL \<open>LIKE\<close>: \<open>%\<close> matches any run of characters and \<open>_\<close> any one character
  (compared here character by character; escapes are not modelled).
\<close>

fun like :: "string \<Rightarrow> string \<Rightarrow> bool" where
  "like [] s = (s = [])"
| "like (p # ps) [] = (p = CHR ''%'' \<and> like ps [])"
| "like (p # ps) (c # s) =
     (if p = CHR ''%'' then like ps (c # s) \<or> like (p # ps) s
      else (p = CHR ''_'' \<or> p = c) \<and> like ps s)"

record filters =
  userId_f :: "string option"
  departmentId_f :: "jsnum option"
  status_f :: "string option"
  priority_f :: "string option"
  search_f :: "string option"

definition no_filters :: filters where
  "no_filters = \<lparr> userId_f = None, departmentId_f = None, status_f = None,
                  priority_f = None, search_f = None \<rparr>"

text \<open>
  The WHERE clause \<open>getTickets\<close> composes: a filter takes part only when its value
  is truthy (so a department filter of 0 or \<open>NaN\<close> is skipped).
\<close>

definition matches :: "filters \<Rightarrow> complaint \<Rightarrow> bool" where
  "matches f r =
     ((case userId_f f of
         Some u \<Rightarrow> u = [] \<or> cms_user_id r = u \<or> cms_sys_l1_id r = Some u
       | None \<Rightarrow> True) \<and>
      (case departmentId_f f of
         Some (Num d) \<Rightarrow> d = 0 \<or> cms_sys_dep_id r = d
       | _ \<Rightarrow> True) \<and>
      (case status_f f of
         Some s \<Rightarrow> s = [] \<or> cms_com_status r = s
       | None \<Rightarrow> True) \<and>
      (case priority_f f of
         Some p \<Rightarrow> p = [] \<or> cms_com_user_priority r = p
       | None \<Rightarrow> True) \<and>
      (case search_f f of
         Some q \<Rightarrow> q = [] \<or> like (''%'' @ q @ ''%'') (cms_com_description r)
                          \<or> like (''%'' @ q @ ''%'') (cms_com_ticket_no r)
       | None \<Rightarrow> True))"

text \<open>
  \<open>getTickets\<close>: the matching rows \<open>ORDER BY cms_created_at DESC LIMIT ? OFFSET ?\<close>
  (rows of equal time in reverse insertion order).
\<close>

definition getTickets :: "store \<Rightarrow> filters \<Rightarrow> int \<Rightarrow> int \<Rightarrow> Ticket list" where
  "getTickets st f limit offset =
     map row_to_ticket
       (take (nat limit) (drop (nat offset)
          (rev (sort_key cms_created_at (filter (matches f) (cms_complaint_details st))))))"

text \<open>
  \<open>createTicketMessage\<close>: inside one transaction, read the ticket number of the
  ticket (an error, and a rollback, when there is none), make sure a user row for the
  sender exists, and insert the message into \<open>cms_resolve\<close>. The user directory is
  not part of this model: the row keeps the sender's \<open>cms_user_id\<close>.
\<close>

fun createTicketMessage ::
  "store \<Rightarrow> jsnum \<Rightarrow> string \<Rightarrow> string \<Rightarrow> (string + TicketMessage) \<times> store" where
  "createTicketMessage st NaN sender msg = (Inl ''Ticket not found'', st)"
| "createTicketMessage st (Num i) sender msg =
     (case find (\<lambda>r. cms_com_id r = i) (cms_complaint_details st) of
        None \<Rightarrow> (Inl ''Ticket not found'', st)
      | Some r \<Rightarrow>
          if cms_com_ticket_no r = [] then (Inl ''Ticket not found'', st)
          else
            (Inr \<lparr> message_id = cms_resolve_next st, ticket_id = i,
                   sender_id = sender, message = msg \<rparr>,
             st\<lparr>cms_resolve := cms_resolve st @
                   [\<lparr> cms_resolve_id = cms_resolve_next st,
                      cms_resolove_ticket_no = cms_com_ticket_no r,
                      cms_resolve_desc = msg,
                      cms_resolve_user_id = sender \<rparr>],
                cms_resolve_next := cms_resolve_next st + 1\<rparr>))"

text \<open>
  \<open>getOrCreateConversation\<close>: order the two members (\<open><\<close> on strings), look the
  pair up, and insert it only when the lookup finds nothing; then read it back.
\<close>

definition ordered_members :: "string \<Rightarrow> string \<Rightarrow> string \<times> string" where
  "ordered_members currentUserId otherUserId =
     (if currentUserId < otherUserId then (currentUserId, otherUserId)
      else (otherUserId, currentUserId))"

definition select_conversation :: "store \<Rightarrow> string \<Rightarrow> string \<Rightarrow> conversation option" where
  "select_conversation st a b =
     find (\<lambda>c. member_a_id c = a \<and> member_b_id c = b) (cms_user_conversations st)"

definition getOrCreateConversation ::
  "store \<Rightarrow> string \<Rightarrow> string \<Rightarrow> jsnum option \<Rightarrow> conversation option \<times> store" where
  "getOrCreateConversation st currentUserId otherUserId deptId =
     (let (a, b) = ordered_members currentUserId otherUserId in
      case select_conversation st a b of
        Some conv \<Rightarrow> (Some conv, st)
      | None \<Rightarrow>
          let st' = st\<lparr>cms_user_conversations := cms_user_conversations st @
                          [\<lparr> conv_id = cms_user_conversations_next st,
                             member_a_id = a, member_b_id = b,
                             dept_id = (case deptId of Some (Num d) \<Rightarrow>
                                          if d = 0 then None else Some d | _ \<Rightarrow> None) \<rparr>],
                        cms_user_conversations_next := cms_user_conversations_next st + 1\<rparr>
          in (select_conversation st' a b, st'))"

text \<open>
  \<open>addConversationMessage\<close>: the insert fails on the foreign key when the
  conversation does not exist; otherwise the new row is read back.
\<close>

fun addConversationMessage ::
  "store \<Rightarrow> jsnum \<Rightarrow> string \<Rightarrow> string \<Rightarrow> (string + conversation_message) \<times> store" where
  "addConversationMessage st NaN senderId msg = (Inl ''foreign key constraint fails'', st)"
| "addConversationMessage st (Num c) senderId msg =
     (if \<not> list_ex (\<lambda>v. conv_id v = c) (cms_user_conversations st)
      then (Inl ''foreign key constraint fails'', st)
      else
        (let row = \<lparr> conv_msg_id = cms_user_conversation_messages_next st,
                     conversation_id = c, conv_sender_id = senderId, conv_message = msg \<rparr>
         in (Inr row,
             st\<lparr>cms_user_conversation_messages := cms_user_conversation_messages st @ [row],
                cms_user_conversation_messages_next :=
                  cms_user_conversation_messages_next st + 1\<rparr>)))"

section \<open>Input sanitizer (sanitize.ts)\<close>

text \<open>
  \<open>sanitizeInput\<close> hands its input to the \<open>xss\<close> package with an empty white list.
  The package is not part of the repository: the filter it computes with these options
  is the parameter \<open>xss\<close>.
\<close>

definition sanitizeInput :: "(string \<Rightarrow> string) \<Rightarrow> string \<Rightarrow> string" where
  "sanitizeInput xss input = xss input"

section \<open>HTTP route layer (routes.ts)\<close>

text \<open>
  A handler takes the database, the session user that \<open>requireAuth\<close> put on the
  request, and the request's parameters; it returns the reply and the database.
  An error reply is \<open>Inl (status, error)\<close>, a success is \<open>Inr (status, json)\<close>.
  A body or query field is \<open>None\<close> when it is absent. The JSON of a ticket is kept as
  the \<open>Ticket\<close> it is projected from. The WebSocket broadcast a handler fires after a
  successful write is modelled on its own in the next section.
\<close>

type_synonym 'a reply = "(nat \<times> string) + (nat \<times> 'a)"

record tickets_query =
  status_q :: "string option"
  department_id_q :: "string option"
  priority_q :: "string option"
  search_q :: "string option"
  limit_q :: "string option"
  offset_q :: "string option"

definition user_depId :: "HRMSUser \<Rightarrow> jsnum option" where
  \<comment> \<open>\<open>user.department ? Number(user.department) : undefined\<close>\<close>
  "user_depId user = (if department user \<noteq> [] then Some (Number_js (department user)) else None)"

definition tickets_filters :: "(string \<Rightarrow> string) \<Rightarrow> HRMSUser \<Rightarrow> tickets_query \<Rightarrow> filters" where
  "tickets_filters xss user q =
     (let f1 = (if role user \<noteq> super_admin
                then (case user_depId user of
                        Some depId \<Rightarrow>
                          if truthy_num depId then no_filters\<lparr>departmentId_f := Some depId\<rparr>
                          else no_filters
                      | None \<Rightarrow> no_filters)
                else no_filters);
          f2 = (case department_id_q q of
                  Some d \<Rightarrow> if d \<noteq> [] then f1\<lparr>departmentId_f := Some (Number_js d)\<rparr> else f1
                | None \<Rightarrow> f1);
          f3 = (case status_q q of
                  Some x \<Rightarrow> if x \<noteq> [] then f2\<lparr>status_f := Some (sanitizeInput xss x)\<rparr> else f2
                | None \<Rightarrow> f2);
          f4 = (case priority_q q of
                  Some x \<Rightarrow> if x \<noteq> [] then f3\<lparr>priority_f := Some (sanitizeInput xss x)\<rparr> else f3
                | None \<Rightarrow> f3)
      in (case search_q q of
            Some x \<Rightarrow> if x \<noteq> [] then f4\<lparr>search_f := Some (sanitizeInput xss x)\<rparr> else f4
          | None \<Rightarrow> f4))"

definition limitNum :: "string option \<Rightarrow> jsnum" where
  "limitNum l =
     (if truthy_str l
      then (case parseInt_js (case l of Some x \<Rightarrow> x | None \<Rightarrow> []) of
              NaN \<Rightarrow> NaN | Num n \<Rightarrow> Num (max 1 (min 100 n)))
      else Num 20)"

definition offsetNum :: "string option \<Rightarrow> jsnum" where
  "offsetNum off =
     (if truthy_str off
      then (case parseInt_js (case off of Some x \<Rightarrow> x | None \<Rightarrow> []) of
              NaN \<Rightarrow> NaN | Num n \<Rightarrow> Num (max 0 n))
      else Num 0)"

text \<open>\<open>GET /tickets\<close>. A \<open>NaN\<close> limit or offset makes the query fail (500).\<close>

definition get_tickets ::
  "(string \<Rightarrow> string) \<Rightarrow> store \<Rightarrow> HRMSUser \<Rightarrow> tickets_query \<Rightarrow> Ticket list reply" where
  "get_tickets xss st user q =
     (case (limitNum (limit_q q), offsetNum (offset_q q)) of
        (Num l, Num off) \<Rightarrow>
          Inr (200, getTickets st (tickets_filters xss user q) l off)
      | _ \<Rightarrow> Inl (500, ''Failed to fetch tickets''))"

text \<open>
  \<open>GET /tickets/:id\<close>. The department check of the source is commented out
  (``TEMP: Allow all authenticated users to view tickets for debugging''), so the handler
  does not read the requester.
\<close>

definition get_ticket :: "store \<Rightarrow> HRMSUser \<Rightarrow> string \<Rightarrow> Ticket reply" where
  "get_ticket st requester idParam =
     (case getTicketById st (Number_js idParam) of
        None \<Rightarrow> Inl (404, ''Ticket not found'')
      | Some ticket \<Rightarrow> Inr (200, ticket))"

text \<open>\<open>PATCH /tickets/:id/status\<close>.\<close>

definition updateStatusSchema :: "string option \<Rightarrow> string option" where
  \<comment> \<open>\<open>z.enum(['open', 'in_progress', 'resolved', 'closed'])\<close>; \<open>None\<close> when \<open>parse\<close> throws\<close>
  "updateStatusSchema b =
     (case b of
        Some s \<Rightarrow> if s \<in> set [''open'', ''in_progress'', ''resolved'', ''closed''] then Some s
                  else None
      | None \<Rightarrow> None)"

definition canUpdate :: "HRMSUser \<Rightarrow> Ticket \<Rightarrow> bool" where
  "canUpdate requester ticket =
     (role requester = admin \<or>
      role requester = super_admin \<or>
      (role requester = employee \<and>
       Number_js (department requester) = Num (department_id ticket) \<and>
       (assigned_to ticket = Some (employee_id requester) \<or> \<not> truthy_str (assigned_to ticket))))"

definition patch_tickets_status ::
  "store \<Rightarrow> HRMSUser \<Rightarrow> string \<Rightarrow> string option \<Rightarrow> Ticket reply \<times> store" where
  "patch_tickets_status st requester idParam body_status =
     (case updateStatusSchema body_status of
        None \<Rightarrow> (Inl (500, ''Failed to update ticket status''), st)
      | Some s \<Rightarrow>
          (case getTicketById st (Number_js idParam) of
             None \<Rightarrow> (Inl (404, ''Ticket not found''), st)
           | Some ticket \<Rightarrow>
               if \<not> canUpdate requester ticket
               then (Inl (403, ''You can only update tickets from your department that you have accepted or that are unassigned''), st)
               else (case updateTicketStatus st (Number_js idParam) s of
                       (Some updatedTicket, st') \<Rightarrow> (Inr (200, updatedTicket), st')
                     | (None, st') \<Rightarrow> (Inl (500, ''Failed to update ticket status''), st'))))"

text \<open>
  \<open>PATCH /tickets/:id/assign\<close>. The role check comes before the 404; the reply is
  built from the ticket as read before the update.
\<close>

definition patch_tickets_assign ::
  "store \<Rightarrow> HRMSUser \<Rightarrow> string \<Rightarrow> string option \<Rightarrow> Ticket reply \<times> store" where
  "patch_tickets_assign st requester idParam body_assigned_to =
     (case body_assigned_to of
        None \<Rightarrow> (Inl (500, ''Failed to assign ticket''), st)
      | Some assigned \<Rightarrow>
          if role requester \<noteq> admin \<and> role requester \<noteq> super_admin
          then (Inl (403, ''Only admins can reassign tickets''), st)
          else (case getTicketById st (Number_js idParam) of
                  None \<Rightarrow> (Inl (404, ''Ticket not found''), st)
                | Some ticket \<Rightarrow>
                    (case assignTicket st (Number_js idParam) assigned of
                       (Some updatedTicket, st') \<Rightarrow> (Inr (200, ticket), st')
                     | (None, st') \<Rightarrow> (Inl (500, ''Failed to assign ticket''), st'))))"

text \<open>\<open>POST /tickets/:id/accept\<close>.\<close>

definition post_tickets_accept :: "store \<Rightarrow> HRMSUser \<Rightarrow> string \<Rightarrow> Ticket reply \<times> store" where
  "post_tickets_accept st requester idParam =
     (case getTicketById st (Number_js idParam) of
        None \<Rightarrow> (Inl (404, ''Ticket not found''), st)
      | Some ticket \<Rightarrow>
          if truthy_str (assigned_to ticket)
          then (Inl (409, ''Ticket already accepted''), st)
          else (case assignTicket st (Number_js idParam) (employee_id requester) of
                  (Some updatedTicket, st') \<Rightarrow> (Inr (200, updatedTicket), st')
                | (None, st') \<Rightarrow> (Inl (500, ''Failed to accept ticket''), st')))"

text \<open>\<open>POST /tickets/:id/messages\<close>.\<close>

definition messageSchema :: "string option \<Rightarrow> string option" where
  \<comment> \<open>\<open>z.string().min(1)\<close>\<close>
  "messageSchema b = (case b of Some m \<Rightarrow> if m \<noteq> [] then Some m else None | None \<Rightarrow> None)"

definition allowed :: "HRMSUser \<Rightarrow> Ticket \<Rightarrow> bool" where
  "allowed user t =
     (let userDep = user_depId user;
          ticketDep = (if department_id t \<noteq> 0 then Some (Num (department_id t)) else None);
          isAdmin = (role user = admin \<or> role user = super_admin)
      in isAdmin
         \<or> ((case userDep of Some n \<Rightarrow> truthy_num n | None \<Rightarrow> False) \<and> userDep = ticketDep)
         \<or> employee_id user = created_by t
         \<or> Some (employee_id user) = assigned_to t)"

definition post_tickets_messages ::
  "(string \<Rightarrow> string) \<Rightarrow> store \<Rightarrow> HRMSUser \<Rightarrow> string \<Rightarrow> string option
     \<Rightarrow> TicketMessage reply \<times> store" where
  "post_tickets_messages xss st user idParam body_message =
     (case messageSchema body_message of
        None \<Rightarrow> (Inl (500, ''Failed to create message''), st)
      | Some m \<Rightarrow>
          (case getTicketById st (Number_js idParam) of
             None \<Rightarrow> (Inl (404, ''Ticket not found''), st)
           | Some t \<Rightarrow>
               if \<not> allowed user t
               then (Inl (403, ''Not allowed to post in this chat''), st)
               else (case createTicketMessage st (Number_js idParam) (employee_id user)
                            (sanitizeInput xss m) of
                       (Inr newMessage, st') \<Rightarrow> (Inr (201, newMessage), st')
                     | (Inl e, st') \<Rightarrow> (Inl (500, ''Failed to create message''), st'))))"

text \<open>\<open>POST /messages/conversations\<close> and \<open>POST /messages/conversations/:id\<close>.\<close>

definition post_messages_conversations ::
  "store \<Rightarrow> HRMSUser \<Rightarrow> string option \<Rightarrow> conversation option reply \<times> store" where
  "post_messages_conversations st user body_userId =
     (let otherId = trim (case body_userId of Some x \<Rightarrow> x | None \<Rightarrow> []) in
      if otherId = [] then (Inl (400, ''userId is required''), st)
      else (case getOrCreateConversation st (employee_id user) otherId (user_depId user) of
              (conv, st') \<Rightarrow> (Inr (201, conv), st')))"

definition post_messages_conversations_id ::
  "store \<Rightarrow> HRMSUser \<Rightarrow> string \<Rightarrow> string option \<Rightarrow> conversation_message reply \<times> store" where
  "post_messages_conversations_id st user idParam body_message =
     (let text = (case body_message of Some x \<Rightarrow> x | None \<Rightarrow> []) in
      if trim text = [] then (Inl (400, ''message is required''), st)
      else (case addConversationMessage st (Number_js idParam) (employee_id user) (trim text) of
              (Inr msg, st') \<Rightarrow> (Inr (201, msg), st')
            | (Inl e, st') \<Rightarrow> (Inl (500, ''Failed to send message''), st')))"

section \<open>WebSocket hub (websocket.ts)\<close>

text \<open>
  A connection is the socket (its ready state and, in order, what has been sent on it),
  the user id and the subscribed ticket id (\<open>None\<close> for \<open>undefined\<close>). A frame is the
  object that is serialised and encrypted before sending, without its timestamp.
  \<open>clients\<close> is the \<open>Map\<close> from client id to connection, in insertion order.
\<close>

datatype readyState = CONNECTING | OPEN | CLOSING | CLOSED

datatype 'a frame =
    New_message jsnum 'a
  | Ticket_update jsnum 'a
  | Notification 'a
  | Pong

record 'a ClientConnection =
  ws_readyState :: readyState
  ws_sent :: "'a frame list"
  userId :: string
  ticketId :: "jsnum option"

type_synonym 'a clients = "(string \<times> 'a ClientConnection) list"

definition strict_eq :: "jsnum option \<Rightarrow> jsnum \<Rightarrow> bool" where
  \<comment> \<open>\<open>client.ticketId === ticketId\<close>\<close>
  "strict_eq a b = (case a of Some (Num n) \<Rightarrow> b = Num n | _ \<Rightarrow> False)"

definition send_if_open :: "'a ClientConnection \<Rightarrow> 'a frame \<Rightarrow> 'a ClientConnection" where
  "send_if_open client f =
     (if ws_readyState client = OPEN then client\<lparr>ws_sent := ws_sent client @ [f]\<rparr> else client)"

definition broadcastTicketMessage :: "'a clients \<Rightarrow> jsnum \<Rightarrow> 'a \<Rightarrow> 'a clients" where
  "broadcastTicketMessage clients tid m =
     map (\<lambda>(k, client).
            (k, if strict_eq (ticketId client) tid
                then send_if_open client (New_message tid m) else client)) clients"

definition broadcastTicketUpdate :: "'a clients \<Rightarrow> jsnum \<Rightarrow> 'a \<Rightarrow> 'a clients" where
  "broadcastTicketUpdate clients tid u =
     map (\<lambda>(k, client).
            (k, if strict_eq (ticketId client) tid
                then send_if_open client (Ticket_update tid u) else client)) clients"

definition notifyUser :: "'a clients \<Rightarrow> string \<Rightarrow> 'a \<Rightarrow> 'a clients" where
  "notifyUser clients uid n =
     map (\<lambda>(k, client).
            (k, if userId client = uid
                then send_if_open client (Notification n) else client)) clients"

datatype client_message = Join_ticket "jsnum option" | Leave_ticket | Ping | Other_message

definition handleMessage :: "'a clients \<Rightarrow> string \<Rightarrow> client_message \<Rightarrow> 'a clients" where
  "handleMessage clients clientId msg =
     map (\<lambda>(k, client).
            (k, if k \<noteq> clientId then client
                else (case msg of
                        Join_ticket t \<Rightarrow> client\<lparr>ticketId := t\<rparr>
                      | Leave_ticket \<Rightarrow> client\<lparr>ticketId := None\<rparr>
                      | Ping \<Rightarrow> client\<lparr>ws_sent := ws_sent client @ [Pong]\<rparr>
                      | Other_message \<Rightarrow> client))) clients"

section \<open>Email templates (routes.ts)\<close>

definition replace_all :: "char \<Rightarrow> string \<Rightarrow> string \<Rightarrow> string" where
  \<comment> \<open>\<open>str.replace(/c/g, by)\<close>\<close>
  "replace_all c by str = concat (map (\<lambda>x. if x = c then by else [x]) str)"

definition escapeHtml :: "string \<Rightarrow> string" where
  "escapeHtml str =
     replace_all (CHR 0x27) ''&#39;''
       (replace_all (CHR 0x22) ''&quot;''
         (replace_all (CHR ''>'') ''&gt;''
           (replace_all (CHR ''<'') ''&lt;''
             (replace_all (CHR ''&'') ''&amp;'' str))))"

section \<open>Sample data\<close>

definition alice :: HRMSUser where
  "alice = \<lparr> employee_id = ''alice'', first_name = ''Alice'', last_name = ''A'',
             email = ''alice@example.org'', department = ''1'', role = employee \<rparr>"

definition bob :: HRMSUser where
  "bob = \<lparr> employee_id = ''bob'', first_name = ''Bob'', last_name = ''B'',
           email = ''bob@example.org'', department = ''2'', role = employee \<rparr>"

definition carol :: HRMSUser where
  "carol = \<lparr> employee_id = ''carol'', first_name = ''Carol'', last_name = ''C'',
             email = ''carol@example.org'', department = ''1'', role = admin \<rparr>"

definition zed :: HRMSUser where
  "zed = \<lparr> employee_id = ''zed'', first_name = ''Zed'', last_name = ''Z'',
           email = ''zed@example.org'', department = ''0'', role = employee \<rparr>"

definition ticket1 :: complaint where
  "ticket1 = \<lparr> cms_com_id = 1, cms_com_ticket_no = ''TKT-1'', cms_com_comp_id = 1,
               cms_sys_dep_id = 1, cms_sys_id = 1, cms_com_description = ''Printer is down'',
               cms_com_user_priority = ''high'', cms_com_status = ''resolved'',
               cms_user_id = ''dave'', cms_sys_l1_id = None, cms_created_at = 10 \<rparr>"

definition ticket2 :: complaint where
  "ticket2 = \<lparr> cms_com_id = 2, cms_com_ticket_no = ''TKT-2'', cms_com_comp_id = 1,
               cms_sys_dep_id = 2, cms_sys_id = 2, cms_com_description = ''Payroll export fails'',
               cms_com_user_priority = ''low'', cms_com_status = ''open'',
               cms_user_id = ''erin'', cms_sys_l1_id = Some ''erin'', cms_created_at = 20 \<rparr>"

definition ticket3 :: complaint where
  "ticket3 = \<lparr> cms_com_id = 3, cms_com_ticket_no = ''TKT-3'', cms_com_comp_id = 1,
               cms_sys_dep_id = 0, cms_sys_id = 3, cms_com_description = ''No department yet'',
               cms_com_user_priority = ''medium'', cms_com_status = ''open'',
               cms_user_id = ''erin'', cms_sys_l1_id = None, cms_created_at = 30 \<rparr>"

definition sample_store :: store where
  "sample_store =
     \<lparr> cms_complaint_details = [ticket1, ticket2, ticket3],
       cms_resolve = [], cms_resolve_next = 1,
       cms_user_conversations = [], cms_user_conversations_next = 1,
       cms_user_conversation_messages = [], cms_user_conversation_messages_next = 1 \<rparr>"

definition empty_store :: store where
  "empty_store =
     \<lparr> cms_complaint_details = [],
       cms_resolve = [], cms_resolve_next = 1,
       cms_user_conversations = [], cms_user_conversations_next = 1,
       cms_user_conversation_messages = [], cms_user_conversation_messages_next = 1 \<rparr>"

definition chat_store :: store where
  "chat_store =
     sample_store\<lparr>cms_user_conversations :=
                    [\<lparr> conv_id = 1, member_a_id = ''alice'', member_b_id = ''bob'',
                       dept_id = Some 1 \<rparr>],
                  cms_user_conversations_next := 2\<rparr>"

definition no_query :: tickets_query where
  "no_query = \<lparr> status_q = None, department_id_q = None, priority_q = None,
                search_q = None, limit_q = None, offset_q = None \<rparr>"

definition sample_clients :: "string clients" where
  "sample_clients =
     [(''alice-1'', \<lparr> ws_readyState = OPEN, ws_sent = [], userId = ''alice'',
                      ticketId = Some (Num 1) \<rparr>),
      (''bob-2'', \<lparr> ws_readyState = OPEN, ws_sent = [], userId = ''bob'',
                    ticketId = Some (Num 2) \<rparr>),
      (''alice-3'', \<lparr> ws_readyState = CLOSED, ws_sent = [], userId = ''alice'',
                      ticketId = Some (Num 1) \<rparr>),
      (''alice-4'', \<lparr> ws_readyState = OPEN, ws_sent = [], userId = ''alice'',
                      ticketId = None \<rparr>)]"

section \<open>Conversations over time\<close>

text \<open>
  A run of \<open>getOrCreateConversation\<close> calls (requester, other user, department), one
  after the other, and the two properties of the conversation table the calls keep:
  every row has its members in order, and no two rows hold the same two members.
\<close>

fun open_conversations :: "store \<Rightarrow> (string \<times> string \<times> jsnum option) list \<Rightarrow> store" where
  "open_conversations st [] = st"
| "open_conversations st ((u, v, d) # calls) =
     open_conversations (snd (getOrCreateConversation st u v d)) calls"

definition members_in_order :: "store \<Rightarrow> bool" where
  "members_in_order st =
     list_all (\<lambda>c. member_a_id c \<le> member_b_id c) (cms_user_conversations st)"

definition uniq_members :: "store \<Rightarrow> bool" where
  \<comment> \<open>\<open>UNIQUE KEY uniq_members (member_a_id, member_b_id)\<close>\<close>
  "uniq_members st =
     distinct (map (\<lambda>c. (member_a_id c, member_b_id c)) (cms_user_conversations st))"

definition one_per_pair :: "store \<Rightarrow> bool" where
  "one_per_pair st =
     distinct (map (\<lambda>c. {member_a_id c, member_b_id c}) (cms_user_conversations st))"

section \<open>Properties\<close>

subsection \<open>Evaluation rules and read-back lemmas\<close>

lemmas js_defs =
  Number_js_def parseInt_js_def is_digit_def decimal_def digit_val_def
  toLowerCase_def toLowerCase_char_def is_space_def trim_def

lemmas route_defs =
  get_tickets_def get_ticket_def patch_tickets_status_def patch_tickets_assign_def
  post_tickets_accept_def post_tickets_messages_def post_messages_conversations_def
  post_messages_conversations_id_def updateStatusSchema_def messageSchema_def
  canUpdate_def allowed_def user_depId_def tickets_filters_def limitNum_def offsetNum_def
  row_to_ticket_def mapStatusToStandard_def assign_row_def

lemmas sample_defs =
  alice_def bob_def carol_def zed_def ticket1_def ticket2_def ticket3_def
  sample_store_def chat_store_def empty_store_def no_query_def no_filters_def
  sample_clients_def

lemma mapStatus_valid:
  "s \<in> set [''open'', ''in_progress'', ''resolved'', ''closed''] \<Longrightarrow> mapStatusToStandard s = s"
  by (auto simp add: mapStatusToStandard_def toLowerCase_def toLowerCase_char_def)

lemma find_map_same_key:
  assumes "\<And>r. cms_com_id (f r) = cms_com_id r"
  shows "find (\<lambda>r. cms_com_id r = i) (map (\<lambda>r. if cms_com_id r = i then f r else r) xs)
         = map_option f (find (\<lambda>r. cms_com_id r = i) xs)"
  by (induction xs) (simp_all add: assms)

lemma getTicketById_Num:
  assumes "getTicketById st n = Some t"
  obtains i r where "n = Num i"
    and "find (\<lambda>r. cms_com_id r = i) (cms_complaint_details st) = Some r"
    and "t = row_to_ticket r"
  using assms by (cases n) auto

lemma updateTicketStatus_reads_back:
  assumes "getTicketById st n = Some t"
      and "s \<in> set [''open'', ''in_progress'', ''resolved'', ''closed'']"
  shows "\<exists>st'. updateTicketStatus st n s = (Some (t\<lparr>status := s\<rparr>), st')
             \<and> getTicketById st' n = Some (t\<lparr>status := s\<rparr>)"
proof -
  from assms(1) obtain i r where n: "n = Num i"
    and r: "find (\<lambda>r. cms_com_id r = i) (cms_complaint_details st) = Some r"
    and t: "t = row_to_ticket r"
    by (rule getTicketById_Num)
  have "find (\<lambda>r. cms_com_id r = i)
          (map (\<lambda>r. if cms_com_id r = i then r\<lparr>cms_com_status := s\<rparr> else r)
               (cms_complaint_details st)) = Some (r\<lparr>cms_com_status := s\<rparr>)"
    using r by (simp add: find_map_same_key [where f = "\<lambda>r. r\<lparr>cms_com_status := s\<rparr>"])
  moreover have "row_to_ticket (r\<lparr>cms_com_status := s\<rparr>) = t\<lparr>status := s\<rparr>"
    using assms(2) by (simp add: t row_to_ticket_def mapStatus_valid)
  ultimately show ?thesis
    by (simp add: n Let_def)
qed

lemma assignTicket_reads_back:
  assumes "getTicketById st n = Some t"
  shows "\<exists>t' st'. assignTicket st n a = (Some t', st')
             \<and> getTicketById st' n = Some t'
             \<and> assigned_to t' = Some a
             \<and> id' t' = id' t"
proof -
  from assms(1) obtain i r where n: "n = Num i"
    and r: "find (\<lambda>r. cms_com_id r = i) (cms_complaint_details st) = Some r"
    and t: "t = row_to_ticket r"
    by (rule getTicketById_Num)
  have "find (\<lambda>r. cms_com_id r = i)
          (map (\<lambda>r. if cms_com_id r = i then assign_row a r else r)
               (cms_complaint_details st)) = Some (assign_row a r)"
    using r by (simp add: find_map_same_key [where f = "assign_row a"] assign_row_def)
  then show ?thesis
    by (simp add: n t Let_def row_to_ticket_def assign_row_def)
qed

lemma updateStatusSchema_Some:
  "updateStatusSchema b = Some s \<longleftrightarrow>
     b = Some s \<and> s \<in> set [''open'', ''in_progress'', ''resolved'', ''closed'']"
  by (auto simp add: updateStatusSchema_def split: option.splits if_splits)

lemma allowed_iff:
  "allowed user t \<longleftrightarrow>
     role user = admin \<or> role user = super_admin
     \<or> (Number_js (department user) = Num (department_id t) \<and> department_id t \<noteq> 0)
     \<or> employee_id user = created_by t
     \<or> assigned_to t = Some (employee_id user)"
  by (cases "Number_js (department user)")
     (auto simp add: allowed_def user_depId_def Let_def Number_js_def)

lemma createTicketMessage_ok:
  assumes "getTicketById st n = Some t" and "ticket_number t \<noteq> []"
  shows "createTicketMessage st n sender msg =
           (Inr \<lparr> message_id = cms_resolve_next st, ticket_id = id' t,
                  sender_id = sender, message = msg \<rparr>,
            st\<lparr>cms_resolve := cms_resolve st @
                   [\<lparr> cms_resolve_id = cms_resolve_next st,
                      cms_resolove_ticket_no = ticket_number t,
                      cms_resolve_desc = msg,
                      cms_resolve_user_id = sender \<rparr>],
                cms_resolve_next := cms_resolve_next st + 1\<rparr>)"
proof -
  from assms(1) obtain i r where n: "n = Num i"
    and r: "find (\<lambda>r. cms_com_id r = i) (cms_complaint_details st) = Some r"
    and t: "t = row_to_ticket r"
    by (rule getTicketById_Num)
  from r have "cms_com_id r = i" by (auto simp add: find_Some_iff)
  then show ?thesis
    using assms(2) by (simp add: n r t row_to_ticket_def)
qed

lemma ordered_members_commute: "ordered_members v u = ordered_members u v"
  by (auto simp add: ordered_members_def)

lemma ordered_members_cases:
  "ordered_members u v = (u, v) \<and> u \<le> v \<or> ordered_members u v = (v, u) \<and> v \<le> u"
  by (auto simp add: ordered_members_def)

lemma find_snoc_new:
  "find P xs = None \<Longrightarrow> P x \<Longrightarrow> find P (xs @ [x]) = Some x"
  by (induction xs) (auto split: if_splits)

lemma getOrCreateConversation_result:
  assumes "ordered_members u v = (a, b)"
  shows "\<exists>c s1. getOrCreateConversation st u v d = (Some c, s1)
            \<and> member_a_id c = a \<and> member_b_id c = b
            \<and> select_conversation s1 a b = Some c
            \<and> (select_conversation st a b = Some c \<and> s1 = st
               \<or> select_conversation st a b = None
                 \<and> cms_user_conversations s1 = cms_user_conversations st @ [c])"
proof (cases "select_conversation st a b")
  case None
  then show ?thesis
    using assms
    by (simp add: getOrCreateConversation_def select_conversation_def find_snoc_new)
next
  case (Some c)
  then have "member_a_id c = a \<and> member_b_id c = b"
    by (auto simp add: select_conversation_def find_Some_iff)
  with Some show ?thesis
    using assms by (simp add: getOrCreateConversation_def)
qed

lemma getOrCreateConversation_found:
  assumes "ordered_members u v = (a, b)" and "select_conversation st a b = Some c"
  shows "getOrCreateConversation st u v d = (Some c, st)"
  using assms by (simp add: getOrCreateConversation_def)

lemma getOrCreateConversation_keeps:
  assumes "members_in_order st" and "uniq_members st"
  shows "members_in_order (snd (getOrCreateConversation st u v d))
       \<and> uniq_members (snd (getOrCreateConversation st u v d))"
proof -
  obtain a b where ab: "ordered_members u v = (a, b)"
    by (cases "ordered_members u v")
  have le: "a \<le> b"
    using ordered_members_cases [of u v] ab by auto
  from getOrCreateConversation_result [OF ab, of st d]
  obtain c s1 where res: "getOrCreateConversation st u v d = (Some c, s1)"
    and c: "member_a_id c = a" "member_b_id c = b"
    and alt: "select_conversation st a b = Some c \<and> s1 = st
               \<or> select_conversation st a b = None
                 \<and> cms_user_conversations s1 = cms_user_conversations st @ [c]"
    by blast
  from alt show ?thesis
  proof
    assume "select_conversation st a b = Some c \<and> s1 = st"
    then show ?thesis using assms res by simp
  next
    assume new: "select_conversation st a b = None
                 \<and> cms_user_conversations s1 = cms_user_conversations st @ [c]"
    then have "(a, b) \<notin> set (map (\<lambda>c. (member_a_id c, member_b_id c)) (cms_user_conversations st))"
      by (auto simp add: select_conversation_def find_None_iff)
    then show ?thesis
      using assms new res c le
      by (simp add: members_in_order_def uniq_members_def)
  qed
qed

lemma open_conversations_keeps:
  "members_in_order st \<Longrightarrow> uniq_members st \<Longrightarrow>
   members_in_order (open_conversations st calls) \<and> uniq_members (open_conversations st calls)"
proof (induction calls arbitrary: st)
  case Nil
  then show ?case by simp
next
  case (Cons call calls)
  obtain u v d where call: "call = (u, v, d)" by (cases call)
  from getOrCreateConversation_keeps [OF Cons.prems, of u v d]
  show ?case by (simp add: call Cons.IH)
qed

lemma one_per_pair_from_key:
  assumes "members_in_order st" and "uniq_members st"
  shows "one_per_pair st"
proof -
  let ?key = "\<lambda>c. (member_a_id c, member_b_id c)"
  let ?up = "\<lambda>p :: string \<times> string. {fst p, snd p}"
  have inj: "inj_on ?up (set (map ?key (cms_user_conversations st)))"
  proof (rule inj_onI)
    fix p q
    assume p: "p \<in> set (map ?key (cms_user_conversations st))"
       and q: "q \<in> set (map ?key (cms_user_conversations st))"
       and eq: "{fst p, snd p} = {fst q, snd q}"
    from p assms(1) have "fst p \<le> snd p"
      by (auto simp add: members_in_order_def list_all_iff)
    moreover from q assms(1) have "fst q \<le> snd q"
      by (auto simp add: members_in_order_def list_all_iff)
    ultimately show "p = q"
      using eq by (cases p; cases q) (auto simp add: doubleton_eq_iff)
  qed
  have key: "distinct (map ?key (cms_user_conversations st))"
    using assms(2) by (simp add: uniq_members_def)
  have "distinct (map ?up (map ?key (cms_user_conversations st)))"
    using key inj by (rule iffD2 [OF distinct_map, OF conjI])
  then show ?thesis
    by (simp add: one_per_pair_def comp_def)
qed

lemma getOrCreateConversation_stores:
  assumes "ordered_members u v = (a, b)"
  shows "\<exists>c s1. getOrCreateConversation st u v d = (Some c, s1)
            \<and> member_a_id c = a \<and> member_b_id c = b
            \<and> c \<in> set (cms_user_conversations s1)
            \<and> (if \<exists>x \<in> set (cms_user_conversations st). member_a_id x = a \<and> member_b_id x = b
               then s1 = st
               else s1 = st\<lparr>cms_user_conversations := cms_user_conversations st @ [c],
                           cms_user_conversations_next := cms_user_conversations_next st + 1\<rparr>
                    \<and> conv_id c = cms_user_conversations_next st)"
proof (cases "select_conversation st a b")
  case None
  then have no: "\<not> (\<exists>x \<in> set (cms_user_conversations st). member_a_id x = a \<and> member_b_id x = b)"
    by (auto simp add: select_conversation_def find_None_iff)
  have "getOrCreateConversation st u v d =
          (select_conversation
             (st\<lparr>cms_user_conversations := cms_user_conversations st @
                    [\<lparr> conv_id = cms_user_conversations_next st,
                       member_a_id = a, member_b_id = b,
                       dept_id = (case d of Some (Num d) \<Rightarrow>
                                    if d = 0 then None else Some d | _ \<Rightarrow> None) \<rparr>],
                  cms_user_conversations_next := cms_user_conversations_next st + 1\<rparr>) a b,
           st\<lparr>cms_user_conversations := cms_user_conversations st @
                    [\<lparr> conv_id = cms_user_conversations_next st,
                       member_a_id = a, member_b_id = b,
                       dept_id = (case d of Some (Num d) \<Rightarrow>
                                    if d = 0 then None else Some d | _ \<Rightarrow> None) \<rparr>],
                  cms_user_conversations_next := cms_user_conversations_next st + 1\<rparr>)"
    using assms None by (simp add: getOrCreateConversation_def Let_def)
  moreover have "select_conversation
             (st\<lparr>cms_user_conversations := cms_user_conversations st @
                    [\<lparr> conv_id = cms_user_conversations_next st,
                       member_a_id = a, member_b_id = b,
                       dept_id = (case d of Some (Num d) \<Rightarrow>
                                    if d = 0 then None else Some d | _ \<Rightarrow> None) \<rparr>],
                  cms_user_conversations_next := cms_user_conversations_next st + 1\<rparr>) a b
          = Some \<lparr> conv_id = cms_user_conversations_next st,
                       member_a_id = a, member_b_id = b,
                       dept_id = (case d of Some (Num d) \<Rightarrow>
                                    if d = 0 then None else Some d | _ \<Rightarrow> None) \<rparr>"
    using None by (simp add: select_conversation_def find_snoc_new)
  ultimately show ?thesis
    using no by auto
next
  case (Some c)
  then have "member_a_id c = a \<and> member_b_id c = b \<and> c \<in> set (cms_user_conversations st)"
    by (auto simp add: select_conversation_def find_Some_iff)
  with Some show ?thesis
    using assms by (auto simp add: getOrCreateConversation_def)
qed

lemma getOrCreateConversation_grows:
  "set (cms_user_conversations st)
     \<subseteq> set (cms_user_conversations (snd (getOrCreateConversation st u v d)))"
proof -
  obtain a b where ab: "ordered_members u v = (a, b)"
    by (cases "ordered_members u v")
  from getOrCreateConversation_stores [OF ab, of st d]
  show ?thesis by (auto split: if_splits)
qed

lemma open_conversations_grows:
  "set (cms_user_conversations st) \<subseteq> set (cms_user_conversations (open_conversations st calls))"
proof (induction calls arbitrary: st)
  case Nil
  then show ?case by simp
next
  case (Cons call calls)
  obtain u v d where call: "call = (u, v, d)" by (cases call)
  show ?case
    using getOrCreateConversation_grows [of st u v d]
          Cons.IH [of "snd (getOrCreateConversation st u v d)"]
    by (auto simp add: call)
qed

lemma open_conversations_holds_pair:
  assumes "(x, y, d) \<in> set calls"
  shows "\<exists>c \<in> set (cms_user_conversations (open_conversations st calls)).
           {member_a_id c, member_b_id c} = {x, y}"
  using assms
proof (induction calls arbitrary: st)
  case Nil
  then show ?case by simp
next
  case (Cons call calls)
  obtain u v e where call: "call = (u, v, e)" by (cases call)
  show ?case
  proof (cases "(x, y, d) = call")
    case True
    then have uv: "u = x" "v = y" using call by auto
    obtain a b where ab: "ordered_members x y = (a, b)"
      by (cases "ordered_members x y")
    have pair: "{a, b} = {x, y}"
      using ordered_members_cases [of x y] ab by auto
    from getOrCreateConversation_stores [OF ab, of st e]
    obtain c where "c \<in> set (cms_user_conversations (snd (getOrCreateConversation st x y e)))"
      and "member_a_id c = a" "member_b_id c = b"
      by auto
    with pair open_conversations_grows [of "snd (getOrCreateConversation st x y e)" calls]
    show ?thesis
      by (auto simp add: call uv)
  next
    case False
    with Cons.prems have "(x, y, d) \<in> set calls" by auto
    from Cons.IH [OF this, of "snd (getOrCreateConversation st u v e)"]
    show ?thesis by (simp add: call)
  qed
qed

lemma distinct_map_filter_one:
  "distinct (map f xs) \<Longrightarrow> x \<in> set xs \<Longrightarrow> length (filter (\<lambda>c. f c = f x) xs) = 1"
proof (induction xs)
  case Nil
  then show ?case by simp
next
  case (Cons z zs)
  show ?case
  proof (cases "f z = f x")
    case True
    from Cons.prems(1) have "f z \<notin> f ` set zs" by simp
    with True have "\<forall>c \<in> set zs. f c \<noteq> f x" by (metis imageI)
    then have "filter (\<lambda>c. f c = f x) zs = []"
      by (simp add: filter_empty_conv)
    with True show ?thesis by simp
  next
    case False
    with Cons show ?thesis by auto
  qed
qed

text \<open>
  Without a \<open>department_id\<close> query value, a requester who is not a super admin and
  whose department is a number other than 0 is listed tickets of that department only.
\<close>

lemma get_tickets_default_scope:
  assumes "role user \<noteq> super_admin" and "Number_js (department user) = Num d" and "d \<noteq> 0"
      and "department_id_q q = None"
      and "get_tickets xss st user q = Inr (200, ts)"
  shows "\<forall>t \<in> set ts. department_id t = d"
proof -
  have "department user \<noteq> []" using assms(2,3) by (auto simp add: Number_js_def)
  then have f: "departmentId_f (tickets_filters xss user q) = Some (Num d)"
    using assms(1-4) by (simp add: tickets_filters_def user_depId_def Let_def split: option.splits)
  obtain l off where "ts = getTickets st (tickets_filters xss user q) l off"
    using assms(5) by (auto simp add: get_tickets_def split: jsnum.splits)
  then have "set ts \<subseteq> row_to_ticket ` set (filter (matches (tickets_filters xss user q)) (cms_complaint_details st))"
    by (auto simp add: getTickets_def dest!: in_set_takeD in_set_dropD)
  then show ?thesis
    using f assms(3) by (auto simp add: matches_def row_to_ticket_def)
qed

text \<open>
  What \<open>escapeHtml\<close> returns holds none of the characters that open or close a tag
  or an attribute value.
\<close>

lemma replace_all_chars:
  "set (replace_all c by str) = (set str - {c}) \<union> (if c \<in> set str then set by else {})"
  by (induction str) (auto simp add: replace_all_def)

lemma escapeHtml_no_markup:
  "set (escapeHtml str) \<inter> {CHR ''<'', CHR ''>'', CHR 0x22, CHR 0x27} = {}"
  by (auto simp add: escapeHtml_def replace_all_chars split: if_splits)

subsection \<open>Frame of the storage-level assignment\<close>

text \<open>
  C10. \<open>assignTicket st (Num i) a\<close> keeps every table but the ticket table, keeps the
  number and order of the ticket rows, leaves every row with another id as it was, and
  in each row with id \<open>i\<close> it sets the assignee to \<open>a\<close>, turns a status \<open>resolved\<close>
  or \<open>closed\<close> into \<open>in_progress\<close>, keeps any other status, and changes no other
  column (putting the old assignee and status back gives the old row).
\<close>

theorem assignTicket_frame:
  "let st' = snd (assignTicket st (Num i) a) in
     st' = st\<lparr>cms_complaint_details := cms_complaint_details st'\<rparr>
     \<and> length (cms_complaint_details st') = length (cms_complaint_details st)
     \<and> (\<forall>k < length (cms_complaint_details st).
          let r = cms_complaint_details st ! k; r' = cms_complaint_details st' ! k in
            (cms_com_id r \<noteq> i \<longrightarrow> r' = r) \<and>
            (cms_com_id r = i \<longrightarrow>
               cms_sys_l1_id r' = Some a \<and>
               cms_com_status r' =
                 (if cms_com_status r = ''resolved'' \<or> cms_com_status r = ''closed''
                  then ''in_progress'' else cms_com_status r) \<and>
               r'\<lparr>cms_sys_l1_id := cms_sys_l1_id r, cms_com_status := cms_com_status r\<rparr> = r))"
  by (simp add: Let_def assign_row_def)

theorem assignTicket_frame_witness:
  "(0::nat) < length (cms_complaint_details sample_store)
   \<and> cms_com_id (cms_complaint_details sample_store ! 0) = 1
   \<and> cms_com_status (cms_complaint_details sample_store ! 0) = ''resolved''
   \<and> cms_sys_l1_id (cms_complaint_details
        (snd (assignTicket sample_store (Num 1) ''alice'')) ! 0) = Some ''alice''
   \<and> cms_com_status (cms_complaint_details
        (snd (assignTicket sample_store (Num 1) ''alice'')) ! 0) = ''in_progress''
   \<and> cms_complaint_details (snd (assignTicket sample_store (Num 1) ''alice'')) ! 1 = ticket2"
  using assignTicket_frame [of sample_store 1 "''alice''"]
  by (simp add: Let_def sample_store_def ticket1_def ticket2_def ticket3_def assign_row_def)

subsection \<open>Who may update a ticket's status\<close>

text \<open>
  C3. For a request that names an existing ticket and carries one of the four status
  values: an employee's update succeeds, and the ticket then reads back with the new
  status, exactly when the ticket's department is the requester's department and the
  ticket is unassigned (no assignee, or the empty string) or assigned to the requester;
  otherwise the reply is 403 and the database is unchanged. For an admin or a
  super admin the update succeeds on any ticket.
\<close>

theorem status_update_rule:
  assumes valid: "body_status = Some s"
      "s = ''open'' \<or> s = ''in_progress'' \<or> s = ''resolved'' \<or> s = ''closed''"
    and found: "getTicketById st (Number_js idParam) = Some ticket"
  shows "(role requester = employee \<longrightarrow>
           (if Number_js (department requester) = Num (department_id ticket)
               \<and> (assigned_to ticket = None \<or> assigned_to ticket = Some []
                    \<or> assigned_to ticket = Some (employee_id requester))
            then \<exists>st'. patch_tickets_status st requester idParam body_status
                         = (Inr (200, ticket\<lparr>status := s\<rparr>), st')
                     \<and> getTicketById st' (Number_js idParam) = Some (ticket\<lparr>status := s\<rparr>)
            else \<exists>e. patch_tickets_status st requester idParam body_status
                         = (Inl (403, e), st)))
       \<and> (role requester = admin \<or> role requester = super_admin \<longrightarrow>
           (\<exists>st'. patch_tickets_status st requester idParam body_status
                         = (Inr (200, ticket\<lparr>status := s\<rparr>), st')
                     \<and> getTicketById st' (Number_js idParam) = Some (ticket\<lparr>status := s\<rparr>)))"
proof -
  have s: "s \<in> set [''open'', ''in_progress'', ''resolved'', ''closed'']"
    using valid(2) by auto
  then have schema: "updateStatusSchema body_status = Some s"
    by (simp add: updateStatusSchema_Some valid(1))
  from updateTicketStatus_reads_back [OF found s]
  obtain st' where upd: "updateTicketStatus st (Number_js idParam) s = (Some (ticket\<lparr>status := s\<rparr>), st')"
    and rb: "getTicketById st' (Number_js idParam) = Some (ticket\<lparr>status := s\<rparr>)"
    by blast
  have ok: "canUpdate requester ticket \<Longrightarrow>
     patch_tickets_status st requester idParam body_status = (Inr (200, ticket\<lparr>status := s\<rparr>), st')"
    by (simp add: patch_tickets_status_def schema found upd)
  have no: "\<not> canUpdate requester ticket \<Longrightarrow>
     \<exists>e. patch_tickets_status st requester idParam body_status = (Inl (403, e), st)"
    by (simp add: patch_tickets_status_def schema found)
  have unassigned: "\<not> truthy_str (assigned_to ticket)
       \<longleftrightarrow> assigned_to ticket = None \<or> assigned_to ticket = Some []"
    by (cases "assigned_to ticket") auto
  show ?thesis
  proof (intro conjI impI)
    assume emp: "role requester = employee"
    show "if Number_js (department requester) = Num (department_id ticket)
               \<and> (assigned_to ticket = None \<or> assigned_to ticket = Some []
                    \<or> assigned_to ticket = Some (employee_id requester))
            then \<exists>st'. patch_tickets_status st requester idParam body_status
                         = (Inr (200, ticket\<lparr>status := s\<rparr>), st')
                     \<and> getTicketById st' (Number_js idParam) = Some (ticket\<lparr>status := s\<rparr>)
            else \<exists>e. patch_tickets_status st requester idParam body_status
                         = (Inl (403, e), st)"
    proof (cases "canUpdate requester ticket")
      case True
      with emp unassigned ok rb show ?thesis
        by (auto simp add: canUpdate_def)
    next
      case False
      with emp unassigned no show ?thesis
        by (auto simp add: canUpdate_def)
    qed
  next
    assume "role requester = admin \<or> role requester = super_admin"
    then have "canUpdate requester ticket" by (auto simp add: canUpdate_def)
    with ok rb show "\<exists>st'. patch_tickets_status st requester idParam body_status
                         = (Inr (200, ticket\<lparr>status := s\<rparr>), st')
                     \<and> getTicketById st' (Number_js idParam) = Some (ticket\<lparr>status := s\<rparr>)"
      by blast
  qed
qed


theorem status_update_rule_witness:
  "getTicketById sample_store (Number_js ''1'') = Some (row_to_ticket ticket1)
   \<and> role alice = employee \<and> role bob = employee
   \<and> Number_js (department alice) = Num (department_id (row_to_ticket ticket1))
   \<and> assigned_to (row_to_ticket ticket1) = None
   \<and> Number_js (department bob) \<noteq> Num (department_id (row_to_ticket ticket1))
   \<and> fst (patch_tickets_status sample_store alice ''1'' (Some ''closed''))
       = Inr (200, (row_to_ticket ticket1)\<lparr>status := ''closed''\<rparr>)
   \<and> patch_tickets_status sample_store bob ''1'' (Some ''closed'')
       = (Inl (403, ''You can only update tickets from your department that you have accepted or that are unassigned''), sample_store)"
  using status_update_rule [of "Some ''closed''" "''closed''" sample_store "''1''"
                               "row_to_ticket ticket1" alice]
        status_update_rule [of "Some ''closed''" "''closed''" sample_store "''1''"
                               "row_to_ticket ticket1" bob]
  by (simp add: js_defs sample_defs route_defs)

subsection \<open>No state machine on the status\<close>

text \<open>
  C9. For a requester the handler authorises (\<open>canUpdate\<close>) and an existing ticket in
  any current status: each of the four targets \<open>open\<close>, \<open>in_progress\<close>,
  \<open>resolved\<close>, \<open>closed\<close> is accepted and the ticket then reads back with that
  status; any other value is rejected (the schema throws, reply 500) and the database
  is unchanged.
\<close>

theorem status_no_state_machine:
  assumes found: "getTicketById st (Number_js idParam) = Some ticket"
      and authorized: "canUpdate requester ticket"
  shows "(target \<in> {''open'', ''in_progress'', ''resolved'', ''closed''} \<longrightarrow>
            (\<exists>st'. patch_tickets_status st requester idParam (Some target)
                      = (Inr (200, ticket\<lparr>status := target\<rparr>), st')
                  \<and> getTicketById st' (Number_js idParam) = Some (ticket\<lparr>status := target\<rparr>)))
       \<and> (target \<notin> {''open'', ''in_progress'', ''resolved'', ''closed''} \<longrightarrow>
            patch_tickets_status st requester idParam (Some target)
              = (Inl (500, ''Failed to update ticket status''), st))"
proof (intro conjI impI)
  assume "target \<in> {''open'', ''in_progress'', ''resolved'', ''closed''}"
  then have t: "target \<in> set [''open'', ''in_progress'', ''resolved'', ''closed'']"
    by simp
  from updateTicketStatus_reads_back [OF found t]
  obtain st' where upd: "updateTicketStatus st (Number_js idParam) target
                           = (Some (ticket\<lparr>status := target\<rparr>), st')"
    and rb: "getTicketById st' (Number_js idParam) = Some (ticket\<lparr>status := target\<rparr>)"
    by blast
  have schema: "updateStatusSchema (Some target) = Some target"
    using t by (simp add: updateStatusSchema_Some)
  have "patch_tickets_status st requester idParam (Some target)
          = (Inr (200, ticket\<lparr>status := target\<rparr>), st')"
    by (simp add: patch_tickets_status_def schema found authorized upd)
  with rb show "\<exists>st'. patch_tickets_status st requester idParam (Some target)
                      = (Inr (200, ticket\<lparr>status := target\<rparr>), st')
                  \<and> getTicketById st' (Number_js idParam) = Some (ticket\<lparr>status := target\<rparr>)"
    by blast
next
  assume "target \<notin> {''open'', ''in_progress'', ''resolved'', ''closed''}"
  then have "updateStatusSchema (Some target) = None"
    by (simp add: updateStatusSchema_def)
  then show "patch_tickets_status st requester idParam (Some target)
              = (Inl (500, ''Failed to update ticket status''), st)"
    by (simp add: patch_tickets_status_def)
qed

theorem status_no_state_machine_witness:
  "getTicketById sample_store (Number_js ''1'') = Some (row_to_ticket ticket1)
   \<and> canUpdate carol (row_to_ticket ticket1)
   \<and> status (row_to_ticket ticket1) = ''resolved''
   \<and> fst (patch_tickets_status sample_store carol ''1'' (Some ''open''))
        = Inr (200, (row_to_ticket ticket1)\<lparr>status := ''open''\<rparr>)
   \<and> patch_tickets_status sample_store carol ''1'' (Some ''reopened'')
        = (Inl (500, ''Failed to update ticket status''), sample_store)"
  using status_no_state_machine [of sample_store "''1''" "row_to_ticket ticket1" carol "''open''"]
        status_no_state_machine [of sample_store "''1''" "row_to_ticket ticket1" carol "''reopened''"]
  by (simp add: js_defs sample_defs route_defs)


subsection \<open>Explicit reassignment\<close>

text \<open>
  C4. With a body that names the new assignee: for an admin or a super admin and an
  existing ticket the reassignment succeeds and the ticket then reads back with the
  new assignee; for any other role the reply is 403, whatever the ticket, and the
  database is unchanged.
\<close>

theorem reassign_admin_only:
  "(role requester = admin \<or> role requester = super_admin \<longrightarrow>
      getTicketById st (Number_js idParam) = Some ticket \<longrightarrow>
      (\<exists>t' st'. patch_tickets_assign st requester idParam (Some a) = (Inr (200, ticket), st')
             \<and> getTicketById st' (Number_js idParam) = Some t'
             \<and> assigned_to t' = Some a))
   \<and> (role requester \<noteq> admin \<and> role requester \<noteq> super_admin \<longrightarrow>
      patch_tickets_assign st requester idParam (Some a)
        = (Inl (403, ''Only admins can reassign tickets''), st))"
proof (intro conjI impI)
  assume adm: "role requester = admin \<or> role requester = super_admin"
     and found: "getTicketById st (Number_js idParam) = Some ticket"
  from assignTicket_reads_back [OF found, of a]
  obtain t' st' where "assignTicket st (Number_js idParam) a = (Some t', st')"
     "getTicketById st' (Number_js idParam) = Some t'" "assigned_to t' = Some a"
    by blast
  with adm found
  show "\<exists>t' st'. patch_tickets_assign st requester idParam (Some a) = (Inr (200, ticket), st')
             \<and> getTicketById st' (Number_js idParam) = Some t'
             \<and> assigned_to t' = Some a"
    by (auto simp add: patch_tickets_assign_def)
next
  assume "role requester \<noteq> admin \<and> role requester \<noteq> super_admin"
  then show "patch_tickets_assign st requester idParam (Some a)
        = (Inl (403, ''Only admins can reassign tickets''), st)"
    by (simp add: patch_tickets_assign_def)
qed

theorem reassign_admin_only_witness:
  "role carol = admin
   \<and> getTicketById sample_store (Number_js ''2'') = Some (row_to_ticket ticket2)
   \<and> map_option assigned_to
        (getTicketById (snd (patch_tickets_assign sample_store carol ''2'' (Some ''alice'')))
           (Number_js ''2'')) = Some (Some ''alice'')
   \<and> role alice \<noteq> admin \<and> role alice \<noteq> super_admin
   \<and> patch_tickets_assign sample_store alice ''2'' (Some ''alice'')
        = (Inl (403, ''Only admins can reassign tickets''), sample_store)"
  using reassign_admin_only [of carol sample_store "''2''" "row_to_ticket ticket2" "''alice''"]
        reassign_admin_only [of alice sample_store "''2''" "row_to_ticket ticket2" "''alice''"]
  by (simp add: js_defs sample_defs route_defs)


subsection \<open>Accepting an unassigned ticket\<close>

text \<open>
  C5. For an existing ticket: when it is unassigned (no assignee, or the empty string)
  the accept succeeds and the ticket then reads back assigned to the requester; when
  it has an assignee the reply is 409 \<open>Ticket already accepted\<close> and the database is
  unchanged.
\<close>

theorem accept_only_unassigned:
  assumes found: "getTicketById st (Number_js idParam) = Some ticket"
  shows "(assigned_to ticket = None \<or> assigned_to ticket = Some [] \<longrightarrow>
            (\<exists>t' st'. post_tickets_accept st requester idParam = (Inr (200, t'), st')
                  \<and> getTicketById st' (Number_js idParam) = Some t'
                  \<and> assigned_to t' = Some (employee_id requester)))
       \<and> (\<not> (assigned_to ticket = None \<or> assigned_to ticket = Some []) \<longrightarrow>
            post_tickets_accept st requester idParam
              = (Inl (409, ''Ticket already accepted''), st))"
proof -
  have unassigned: "\<not> truthy_str (assigned_to ticket)
       \<longleftrightarrow> assigned_to ticket = None \<or> assigned_to ticket = Some []"
    by (cases "assigned_to ticket") auto
  from assignTicket_reads_back [OF found, of "employee_id requester"]
  obtain t' st' where "assignTicket st (Number_js idParam) (employee_id requester) = (Some t', st')"
     "getTicketById st' (Number_js idParam) = Some t'"
     "assigned_to t' = Some (employee_id requester)"
    by blast
  then show ?thesis
    using found unassigned by (auto simp add: post_tickets_accept_def)
qed

theorem accept_only_unassigned_witness:
  "getTicketById sample_store (Number_js ''1'') = Some (row_to_ticket ticket1)
   \<and> assigned_to (row_to_ticket ticket1) = None
   \<and> map_option assigned_to
        (getTicketById (snd (post_tickets_accept sample_store bob ''1'')) (Number_js ''1''))
       = Some (Some ''bob'')
   \<and> getTicketById sample_store (Number_js ''2'') = Some (row_to_ticket ticket2)
   \<and> assigned_to (row_to_ticket ticket2) = Some ''erin''
   \<and> post_tickets_accept sample_store bob ''2''
       = (Inl (409, ''Ticket already accepted''), sample_store)"
  using accept_only_unassigned [of sample_store "''1''" "row_to_ticket ticket1" bob]
        accept_only_unassigned [of sample_store "''2''" "row_to_ticket ticket2" bob]
  by (simp add: js_defs sample_defs route_defs)

subsection \<open>Who may post in a ticket's chat\<close>

text \<open>
  C6 as stated fails where the shared department is 0: the handler compares the two
  departments only when the requester's is truthy. User \<open>zed\<close> of department \<open>0\<close>
  is refused on ticket 3 of department 0.
\<close>

theorem chat_department_zero_counterexample:
  "getTicketById sample_store (Number_js ''3'') = Some (row_to_ticket ticket3)
   \<and> Number_js (department zed) = Num (department_id (row_to_ticket ticket3))
   \<and> post_tickets_messages id sample_store zed ''3'' (Some ''hello'')
       = (Inl (403, ''Not allowed to post in this chat''), sample_store)"
  by (simp add: js_defs sample_defs route_defs)


text \<open>
  C6, amended. For a non-empty message and an existing ticket that carries a ticket
  number: the post succeeds, and one row with the sanitised message is appended to the
  chat table, exactly when the requester is an admin or a super admin, or the
  requester's department is the ticket's department and is not 0, or the requester is
  the ticket's creator, or the requester is the ticket's assignee; otherwise the reply
  is 403 and the database is unchanged.
\<close>

theorem chat_post_rule:
  assumes valid: "body_message = Some m" "m \<noteq> []"
      and found: "getTicketById st (Number_js idParam) = Some t"
      and numbered: "ticket_number t \<noteq> []"
  shows "if role user = admin \<or> role user = super_admin
            \<or> (Number_js (department user) = Num (department_id t) \<and> department_id t \<noteq> 0)
            \<or> employee_id user = created_by t
            \<or> assigned_to t = Some (employee_id user)
         then \<exists>msg row st'.
                post_tickets_messages xss st user idParam body_message = (Inr (201, msg), st')
                \<and> sender_id msg = employee_id user
                \<and> message msg = sanitizeInput xss m
                \<and> cms_resolve st' = cms_resolve st @ [row]
                \<and> cms_resolove_ticket_no row = ticket_number t
                \<and> cms_resolve_desc row = sanitizeInput xss m
         else post_tickets_messages xss st user idParam body_message
                = (Inl (403, ''Not allowed to post in this chat''), st)"
proof -
  have schema: "messageSchema body_message = Some m"
    using valid by (simp add: messageSchema_def)
  show ?thesis
  proof (cases "allowed user t")
    case True
    then have "post_tickets_messages xss st user idParam body_message =
        (Inr (201, \<lparr> message_id = cms_resolve_next st, ticket_id = id' t,
                      sender_id = employee_id user, message = sanitizeInput xss m \<rparr>),
            st\<lparr>cms_resolve := cms_resolve st @
                   [\<lparr> cms_resolve_id = cms_resolve_next st,
                      cms_resolove_ticket_no = ticket_number t,
                      cms_resolve_desc = sanitizeInput xss m,
                      cms_resolve_user_id = employee_id user \<rparr>],
                cms_resolve_next := cms_resolve_next st + 1\<rparr>)"
      by (simp add: post_tickets_messages_def schema found
                    createTicketMessage_ok [OF found numbered])
    with True show ?thesis
      unfolding allowed_iff by simp
  next
    case False
    then have "post_tickets_messages xss st user idParam body_message
                = (Inl (403, ''Not allowed to post in this chat''), st)"
      by (simp add: post_tickets_messages_def schema found)
    with False show ?thesis
      unfolding allowed_iff by simp
  qed
qed

theorem chat_post_rule_witness:
  "getTicketById sample_store (Number_js ''1'') = Some (row_to_ticket ticket1)
   \<and> ticket_number (row_to_ticket ticket1) \<noteq> []
   \<and> Number_js (department alice) = Num (department_id (row_to_ticket ticket1))
   \<and> department_id (row_to_ticket ticket1) \<noteq> 0
   \<and> fst (post_tickets_messages id sample_store alice ''1'' (Some ''hello''))
       = Inr (201, \<lparr> message_id = 1, ticket_id = 1, sender_id = ''alice'', message = ''hello'' \<rparr>)
   \<and> post_tickets_messages id sample_store bob ''1'' (Some ''hello'')
       = (Inl (403, ''Not allowed to post in this chat''), sample_store)"
  using chat_post_rule [of "Some ''hello''" "''hello''" sample_store "''1''"
                           "row_to_ticket ticket1" alice id]
        chat_post_rule [of "Some ''hello''" "''hello''" sample_store "''1''"
                           "row_to_ticket ticket1" bob id]
  by (simp add: js_defs sample_defs route_defs sanitizeInput_def)


subsection \<open>WebSocket fan-out\<close>

text \<open>
  C7. \<open>broadcastTicketMessage\<close> and \<open>broadcastTicketUpdate\<close> for ticket \<open>T\<close> keep the
  client map's keys and order and change nothing of a connection but what was sent on
  its socket: the frame is appended exactly on the connections that are open and whose
  tracked ticket id is \<open>T\<close>. \<open>notifyUser\<close> for user \<open>U\<close> does the same exactly on the
  open connections of user \<open>U\<close>, whatever their ticket id.
\<close>

theorem websocket_fanout:
  "(let cs' = broadcastTicketMessage cs (Num T) m in
      map fst cs' = map fst cs \<and>
      (\<forall>k < length cs.
         let c = snd (cs ! k); c' = snd (cs' ! k) in
           c' = c\<lparr>ws_sent := ws_sent c'\<rparr> \<and>
           ws_sent c' = (if ws_readyState c = OPEN \<and> ticketId c = Some (Num T)
                         then ws_sent c @ [New_message (Num T) m] else ws_sent c)))
   \<and> (let cs' = broadcastTicketUpdate cs (Num T) u in
      map fst cs' = map fst cs \<and>
      (\<forall>k < length cs.
         let c = snd (cs ! k); c' = snd (cs' ! k) in
           c' = c\<lparr>ws_sent := ws_sent c'\<rparr> \<and>
           ws_sent c' = (if ws_readyState c = OPEN \<and> ticketId c = Some (Num T)
                         then ws_sent c @ [Ticket_update (Num T) u] else ws_sent c)))
   \<and> (let cs' = notifyUser cs U n in
      map fst cs' = map fst cs \<and>
      (\<forall>k < length cs.
         let c = snd (cs ! k); c' = snd (cs' ! k) in
           c' = c\<lparr>ws_sent := ws_sent c'\<rparr> \<and>
           ws_sent c' = (if ws_readyState c = OPEN \<and> userId c = U
                         then ws_sent c @ [Notification n] else ws_sent c)))"
proof -
  have eq: "strict_eq a (Num T) \<longleftrightarrow> a = Some (Num T)" for a
    by (auto simp add: strict_eq_def split: option.splits jsnum.splits)
  have fst1: "map fst (map (\<lambda>(k, c). (k, f c)) xs) = map fst xs" for f :: "'b \<Rightarrow> 'b" and xs :: "(string \<times> 'b) list"
    by (induction xs) auto
  show ?thesis
    unfolding Let_def broadcastTicketMessage_def broadcastTicketUpdate_def notifyUser_def
    by (auto simp add: eq fst1 send_if_open_def split_beta)
qed


theorem websocket_fanout_witness:
  "(1::nat) < length sample_clients
   \<and> map (ws_sent \<circ> snd) (broadcastTicketMessage sample_clients (Num 1) ''hi'')
       = [[New_message (Num 1) ''hi''], [], [], []]
   \<and> map (ws_sent \<circ> snd) (broadcastTicketUpdate sample_clients (Num 2) ''closed'')
       = [[], [Ticket_update (Num 2) ''closed''], [], []]
   \<and> map (ws_sent \<circ> snd) (notifyUser sample_clients ''alice'' ''note'')
       = [[Notification ''note''], [], [], [Notification ''note'']]"
  using websocket_fanout [of sample_clients 1 "''hi''" "''closed''" "''alice''" "''note''"]
  by (simp add: sample_defs broadcastTicketMessage_def broadcastTicketUpdate_def
                notifyUser_def strict_eq_def send_if_open_def)

subsection \<open>One conversation per pair of users\<close>

text \<open>
  C8. From any database, \<open>getOrCreateConversation u v\<close> returns a conversation that
  is a row of the conversation table after the call, with the two members \<open>u\<close> and
  \<open>v\<close> stored in order (the smaller first). When the table already held a row for
  the ordered pair the database is unchanged; otherwise exactly that one row, with the
  next id, has been appended and nothing else has changed. A following call for
  \<open>(v, u)\<close> or for \<open>(u, v)\<close> returns the same record and leaves the database as it
  is. After any run of calls from the empty table no two rows hold the same pair of
  members, and for every pair that was asked for the table holds exactly one row.
\<close>

theorem conversation_unique:
  "(\<exists>c s1. getOrCreateConversation st u v d1 = (Some c, s1)
          \<and> c \<in> set (cms_user_conversations s1)
          \<and> (member_a_id c, member_b_id c) = (if u < v then (u, v) else (v, u))
          \<and> {member_a_id c, member_b_id c} = {u, v}
          \<and> member_a_id c \<le> member_b_id c
          \<and> (if \<exists>x \<in> set (cms_user_conversations st).
                   member_a_id x = member_a_id c \<and> member_b_id x = member_b_id c
              then s1 = st
              else s1 = st\<lparr>cms_user_conversations := cms_user_conversations st @ [c],
                          cms_user_conversations_next := cms_user_conversations_next st + 1\<rparr>
                   \<and> conv_id c = cms_user_conversations_next st)
          \<and> getOrCreateConversation s1 v u d2 = (Some c, s1)
          \<and> getOrCreateConversation s1 u v d3 = (Some c, s1))
   \<and> one_per_pair (open_conversations empty_store calls)
   \<and> (\<forall>(x, y, d) \<in> set calls.
         length (filter (\<lambda>c. {member_a_id c, member_b_id c} = {x, y})
                   (cms_user_conversations (open_conversations empty_store calls))) = 1)"
proof (intro conjI)
  obtain a b where ab: "ordered_members u v = (a, b)"
    by (cases "ordered_members u v")
  then have ba: "ordered_members v u = (a, b)"
    by (simp add: ordered_members_commute)
  from getOrCreateConversation_result [OF ab, of st d1]
  obtain c s1 where res: "getOrCreateConversation st u v d1 = (Some c, s1)"
    and c: "member_a_id c = a" "member_b_id c = b"
    and sel: "select_conversation s1 a b = Some c"
    by blast
  from getOrCreateConversation_stores [OF ab, of st d1] res c
  have stored: "c \<in> set (cms_user_conversations s1)"
    and eff: "if \<exists>x \<in> set (cms_user_conversations st). member_a_id x = a \<and> member_b_id x = b
              then s1 = st
              else s1 = st\<lparr>cms_user_conversations := cms_user_conversations st @ [c],
                          cms_user_conversations_next := cms_user_conversations_next st + 1\<rparr>
                   \<and> conv_id c = cms_user_conversations_next st"
    by auto
  have ord: "(a, b) = (if u < v then (u, v) else (v, u))"
    using ab by (simp add: ordered_members_def)
  have "{a, b} = {u, v} \<and> a \<le> b"
    using ordered_members_cases [of u v] ab by auto
  with res c stored eff ord
       getOrCreateConversation_found [OF ba sel] getOrCreateConversation_found [OF ab sel]
  show "\<exists>c s1. getOrCreateConversation st u v d1 = (Some c, s1)
          \<and> c \<in> set (cms_user_conversations s1)
          \<and> (member_a_id c, member_b_id c) = (if u < v then (u, v) else (v, u))
          \<and> {member_a_id c, member_b_id c} = {u, v}
          \<and> member_a_id c \<le> member_b_id c
          \<and> (if \<exists>x \<in> set (cms_user_conversations st).
                   member_a_id x = member_a_id c \<and> member_b_id x = member_b_id c
              then s1 = st
              else s1 = st\<lparr>cms_user_conversations := cms_user_conversations st @ [c],
                          cms_user_conversations_next := cms_user_conversations_next st + 1\<rparr>
                   \<and> conv_id c = cms_user_conversations_next st)
          \<and> getOrCreateConversation s1 v u d2 = (Some c, s1)
          \<and> getOrCreateConversation s1 u v d3 = (Some c, s1)"
    by simp
next
  have "members_in_order empty_store" "uniq_members empty_store"
    by (simp_all add: members_in_order_def uniq_members_def empty_store_def)
  then show one: "one_per_pair (open_conversations empty_store calls)"
    using open_conversations_keeps one_per_pair_from_key by blast
  show "\<forall>(x, y, d) \<in> set calls.
         length (filter (\<lambda>c. {member_a_id c, member_b_id c} = {x, y})
                   (cms_user_conversations (open_conversations empty_store calls))) = 1"
  proof (clarify)
    fix x y d
    assume "(x, y, d) \<in> set calls"
    from open_conversations_holds_pair [OF this, of empty_store]
    obtain c where c: "c \<in> set (cms_user_conversations (open_conversations empty_store calls))"
      and p: "{member_a_id c, member_b_id c} = {x, y}"
      by blast
    from one have "distinct (map (\<lambda>c. {member_a_id c, member_b_id c})
                     (cms_user_conversations (open_conversations empty_store calls)))"
      by (simp add: one_per_pair_def)
    from distinct_map_filter_one [OF this c] p
    show "length (filter (\<lambda>c. {member_a_id c, member_b_id c} = {x, y})
                   (cms_user_conversations (open_conversations empty_store calls))) = 1"
      by simp
  qed
qed

theorem conversation_unique_witness:
  "getOrCreateConversation empty_store ''bob'' ''alice'' None
     = (Some \<lparr> conv_id = 1, member_a_id = ''alice'', member_b_id = ''bob'', dept_id = None \<rparr>,
        empty_store\<lparr>cms_user_conversations :=
                       [\<lparr> conv_id = 1, member_a_id = ''alice'', member_b_id = ''bob'',
                          dept_id = None \<rparr>],
                     cms_user_conversations_next := 2\<rparr>)
   \<and> getOrCreateConversation (open_conversations empty_store [(''bob'', ''alice'', None)])
        ''alice'' ''bob'' (Some (Num 2))
     = (Some \<lparr> conv_id = 1, member_a_id = ''alice'', member_b_id = ''bob'', dept_id = None \<rparr>,
        open_conversations empty_store [(''bob'', ''alice'', None)])
   \<and> (''alice'', ''bob'', None) \<in> set [(''bob'', ''alice'', None), (''alice'', ''bob'', None),
                                      (''bob'', ''carol'', None)]
   \<and> map (\<lambda>c. (conv_id c, member_a_id c, member_b_id c))
        (cms_user_conversations (open_conversations empty_store
           [(''bob'', ''alice'', None), (''alice'', ''bob'', None), (''bob'', ''carol'', None)]))
     = [(1, ''alice'', ''bob''), (2, ''bob'', ''carol'')]
   \<and> one_per_pair (open_conversations empty_store
        [(''bob'', ''alice'', None), (''alice'', ''bob'', None), (''bob'', ''carol'', None)])"
  using conversation_unique [of empty_store "''bob''" "''alice''" None "Some (Num 2)" None
          "[(''bob'', ''alice'', None), (''alice'', ''bob'', None), (''bob'', ''carol'', None)]"]
  by (simp add: sample_defs getOrCreateConversation_def ordered_members_def
                select_conversation_def)

subsection \<open>Ticket visibility\<close>

text \<open>
  C1. An employee is to see only tickets of the own department. The handlers do not
  hold to it: employee \<open>alice\<close> of department 1 reads ticket 2 of department 2 by its
  id, is listed department 2 with the query value \<open>department_id=2\<close>, and is listed
  every ticket with a \<open>department_id\<close> that is not a number.
\<close>

theorem ticket_visibility_not_enforced:
  "role alice = employee
   \<and> Number_js (department alice) = Num 1
   \<and> department_id (row_to_ticket ticket2) = 2
   \<and> get_ticket sample_store alice ''2'' = Inr (200, row_to_ticket ticket2)
   \<and> get_tickets xss sample_store alice (no_query\<lparr>department_id_q := Some ''2''\<rparr>)
       = Inr (200, [row_to_ticket ticket2])
   \<and> get_tickets xss sample_store alice (no_query\<lparr>department_id_q := Some ''all''\<rparr>)
       = Inr (200, [row_to_ticket ticket3, row_to_ticket ticket2, row_to_ticket ticket1])"
  by (simp add: js_defs sample_defs route_defs getTickets_def matches_def)


subsection \<open>Input sanitisation\<close>

text \<open>
  C2. Every free-text field is to be stored as the sanitiser returns it. The
  direct-message handler never calls the sanitiser: the text \<open><b>hi</b>\<close> is stored
  with its markup, only trimmed.
\<close>

theorem conversation_message_stored_raw:
  "post_messages_conversations_id chat_store alice ''1'' (Some ''<b>hi</b> '')
     = (Inr (201, \<lparr> conv_msg_id = 1, conversation_id = 1, conv_sender_id = ''alice'',
                     conv_message = ''<b>hi</b>'' \<rparr>),
        chat_store\<lparr>cms_user_conversation_messages :=
                     [\<lparr> conv_msg_id = 1, conversation_id = 1, conv_sender_id = ''alice'',
                        conv_message = ''<b>hi</b>'' \<rparr>],
                   cms_user_conversation_messages_next := 2\<rparr>)"
  by (simp add: js_defs sample_defs route_defs Let_def)

end
